theory Spec2Isabelle
  imports Main "HOL-Library.Word" "HOL-Library.AList"
begin

section \<open>JavaScript strings and JSON values\<close>

text \<open>
  A JavaScript string is a sequence of UTF-16 code units, and \<open>length\<close> counts code
  units. Literals of the source are written with \<open>js\<close>; a code unit beyond ASCII is
  given by its number.
\<close>

type_synonym jsstring = "16 word list"

definition js :: "string \<Rightarrow> jsstring" where
  "js s = map (\<lambda>c. of_nat (of_char c)) s"

text \<open>
  \<open>String.prototype.trim\<close> removes the WhiteSpace and LineTerminator code units of
  ECMAScript from both ends.
\<close>

definition isWhiteSpace :: "16 word \<Rightarrow> bool" where
  "isWhiteSpace c \<longleftrightarrow>
     c \<in> set [0x0009, 0x000A, 0x000B, 0x000C, 0x000D, 0x0020, 0x00A0, 0x1680,
               0x2028, 0x2029, 0x202F, 0x205F, 0x3000, 0xFEFF]
     \<or> (0x2000 \<le> c \<and> c \<le> 0x200A)"

definition trim :: "jsstring \<Rightarrow> jsstring" where
  "trim s = rev (dropWhile isWhiteSpace (rev (dropWhile isWhiteSpace s)))"

definition startsWith :: "jsstring \<Rightarrow> jsstring \<Rightarrow> bool" where
  "startsWith s p \<longleftrightarrow> take (length p) s = p"

text \<open>\<open>s.split(sep)\<close> for a separator of one code unit.\<close>

fun split :: "16 word \<Rightarrow> jsstring \<Rightarrow> jsstring list" where
  "split sep [] = [[]]"
| "split sep (c # cs) =
     (if c = sep then [] # split sep cs
      else (case split sep cs of r # rs \<Rightarrow> (c # r) # rs | [] \<Rightarrow> [[c]]))"

text \<open>
  The values \<open>JSON.parse\<close> produces. A number is carried as the text that JavaScript's
  number-to-string conversion gives for it, which identifies the number; both zeros
  print as \<open>0\<close>, and they are the only falsy numbers JSON can denote. A property or
  variable that is \<open>undefined\<close> is \<open>None\<close> of \<open>js_value option\<close>.
\<close>

datatype js_value =
    JNull
  | JBool bool
  | JNumber jsstring
  | JString jsstring
  | JArray "js_value list"
  | JObject "(jsstring \<times> js_value) list"

fun truthy :: "js_value \<Rightarrow> bool" where
  "truthy JNull = False"
| "truthy (JBool b) = b"
| "truthy (JNumber n) = (n \<noteq> js ''0'')"
| "truthy (JString s) = (s \<noteq> [])"
| "truthy (JArray xs) = True"
| "truthy (JObject kvs) = True"

text \<open>\<open>v || d\<close>\<close>

definition or_else :: "js_value option \<Rightarrow> js_value \<Rightarrow> js_value" where
  "or_else v d = (case v of None \<Rightarrow> d | Some x \<Rightarrow> if truthy x then x else d)"

text \<open>
  \<open>String(v)\<close>. \<open>None\<close> is the TypeError that the conversion of an object throws when
  no primitive comes out of it: a parsed object whose own property \<open>toString\<close> hides
  \<open>Object.prototype.toString\<close> (a JSON value is never callable, and
  \<open>Object.prototype.valueOf\<close> returns the object itself). An array is converted by
  \<open>join\<close>, which prints \<open>null\<close> elements as the empty string.
\<close>

fun ToString :: "js_value \<Rightarrow> jsstring option"
  and join :: "js_value list \<Rightarrow> jsstring option"
  and element :: "js_value \<Rightarrow> jsstring option" where
  "ToString JNull = Some (js ''null'')"
| "ToString (JBool b) = Some (if b then js ''true'' else js ''false'')"
| "ToString (JNumber n) = Some n"
| "ToString (JString s) = Some s"
| "ToString (JArray xs) = join xs"
| "ToString (JObject kvs) =
     (if js ''toString'' \<in> fst ` set kvs then None else Some (js ''[object Object]''))"
| "join [] = Some []"
| "join [x] = element x"
| "join (x # y # ys) =
     (case element x of None \<Rightarrow> None
      | Some s \<Rightarrow> (case join (y # ys) of None \<Rightarrow> None
                  | Some r \<Rightarrow> Some (s @ js '','' @ r)))"
| "element JNull = Some []"
| "element (JBool b) = ToString (JBool b)"
| "element (JNumber n) = ToString (JNumber n)"
| "element (JString s) = ToString (JString s)"
| "element (JArray xs) = ToString (JArray xs)"
| "element (JObject kvs) = ToString (JObject kvs)"

text \<open>Reading a property of a parsed value; only objects have the properties read here.\<close>

definition property :: "js_value \<Rightarrow> jsstring \<Rightarrow> js_value option" where
  "property v key = (case v of JObject kvs \<Rightarrow> map_of kvs key | _ \<Rightarrow> None)"

text \<open>A name bound by \<open>const { key } = b || {}\<close>.\<close>

definition destructure :: "js_value option \<Rightarrow> jsstring \<Rightarrow> js_value option" where
  "destructure b key = property (or_else b (JObject [])) key"

text \<open>\<open>history.slice(-n)\<close>\<close>

definition slice_last :: "nat \<Rightarrow> 'a list \<Rightarrow> 'a list" where
  "slice_last n xs = drop (length xs - n) xs"

section \<open>Configuration, requests and responses\<close>

text \<open>The environment variables the server reads; \<open>None\<close> is an unset variable.\<close>

record env =
  WIDGET_TOKEN :: "jsstring option"
  OPENAI_API_KEY :: "jsstring option"
  ALLOWED_ORIGINS :: "jsstring option"

text \<open>
  An error passed to \<open>next\<close>: its \<open>message\<close> and, when it has one, its \<open>status\<close>. The
  errors of the CORS callback have none; those of \<open>express.json\<close> carry 400 for a body
  that does not parse and 413 for a body over the limit.
\<close>

record js_error =
  err_message :: jsstring
  err_status :: "nat option"

text \<open>
  A request to \<open>POST /api/chat\<close>: what \<open>express.json({ limit: "16kb" })\<close>, mounted
  first, made of its body, and the two headers that are read. \<open>json_error\<close> is the error
  the parser passes on when it refuses the body, \<open>None\<close> when it accepts it; \<open>body\<close> is
  \<open>req.body\<close> then (\<open>None\<close> when that is undefined).
\<close>

record request =
  json_error :: "js_error option"
  origin :: "jsstring option"
  x_widget_token :: "jsstring option"
  body :: "js_value option"

datatype payload =
    Reply jsstring
  | ReplySession jsstring js_value
  | LimiterMessage
  | DefaultError

record response =
  status :: nat
  payload :: payload

datatype role = System | User | Assistant

record turn =
  role :: role
  content :: jsstring

section \<open>Allowed origins and the CORS layer\<close>

definition defaultAllowed :: "jsstring list" where
  "defaultAllowed =
     [js ''https://automatizacionesbilbao.es'', js ''https://www.automatizacionesbilbao.es'']"

definition allowedFromEnv :: "env \<Rightarrow> jsstring list" where
  "allowedFromEnv e =
     filter (\<lambda>s. s \<noteq> [])
       (map trim (split 0x002C (case ALLOWED_ORIGINS e of None \<Rightarrow> [] | Some s \<Rightarrow> s)))"

definition allowedOrigins :: "env \<Rightarrow> jsstring list" where
  "allowedOrigins e = (if allowedFromEnv e \<noteq> [] then allowedFromEnv e else defaultAllowed)"

definition isAllowedOrigin :: "env \<Rightarrow> jsstring option \<Rightarrow> bool" where
  "isAllowedOrigin e og =
     (case og of None \<Rightarrow> False | Some s \<Rightarrow> s \<noteq> [] \<and> s \<in> set (allowedOrigins e))"

text \<open>
  The origin callback given to \<open>cors\<close>: \<open>Some msg\<close> is \<open>cb(new Error(msg), false)\<close>,
  \<open>None\<close> is \<open>cb(null, true)\<close>. On an error \<open>cors\<close> calls \<open>next(err)\<close>.
\<close>

definition cors_origin :: "env \<Rightarrow> jsstring option \<Rightarrow> jsstring option" where
  "cors_origin e og =
     (if og = None \<or> og = Some [] then Some (js ''CORS: missing origin'')
      else if isAllowedOrigin e og then None
      else Some (js ''CORS: origin not allowed''))"

definition origen_no_permitido :: response where
  "origen_no_permitido = \<lparr>status = 403, payload = Reply (js ''Origen no permitido.'')\<rparr>"

text \<open>
  Express hands an error passed to \<open>next\<close> to the error middleware at the end of the
  file. That answers the CORS errors and passes every other error on, to the default
  handler of Express, which answers with the status of the error when that is a 4xx or
  5xx code and with 500 otherwise.
\<close>

definition default_handler :: "js_error \<Rightarrow> response" where
  "default_handler err =
     \<lparr>status = (case err_status err of
                   None \<Rightarrow> 500
                 | Some st \<Rightarrow> if 400 \<le> st \<and> st < 600 then st else 500),
      payload = DefaultError\<rparr>"

definition errorHandler :: "js_error \<Rightarrow> response" where
  "errorHandler err =
     (if startsWith (err_message err) (js ''CORS:'') then origen_no_permitido
      else default_handler err)"

section \<open>Rate limiter\<close>

text \<open>
  \<open>chatLimiter\<close> is \<open>express-rate-limit\<close> configured with the two numbers below. What
  it decides for a request is an input of the model (\<open>limited\<close>); a limited request is
  answered by the limiter with status 429.
\<close>

definition windowMs :: nat where
  "windowMs = 60 * 1000"

definition max_requests :: nat where
  "max_requests = 20"

definition too_many_requests :: response where
  "too_many_requests = \<lparr>status = 429, payload = LimiterMessage\<rparr>"

section \<open>System prompt\<close>

definition systemPrompt :: jsstring where
  "systemPrompt = concat [
     [0x000A],
     js ''Eres el asistente de la web de Clickmesh (automatizaci'' @ [0x00F3] @ js ''n y soluciones digitales).'' @ [0x000A],
     js ''Objetivo: resolver dudas y, cuando haya intenci'' @ [0x00F3] @ js ''n comercial, convertirla en lead cualificado.'' @ [0x000A],
     [0x000A],
     js ''Estilo:'' @ [0x000A],
     js ''- Profesional, claro, sin exageraciones.'' @ [0x000A],
     js ''- Respuestas directas, con pasos accionables.'' @ [0x000A],
     js ''- Si falta informaci'' @ [0x00F3] @ js ''n, pregunta solo lo m'' @ [0x00ED] @ js ''nimo.'' @ [0x000A],
     [0x000A],
     js ''Reglas:'' @ [0x000A],
     js ''- No inventes precios, plazos, resultados garantizados ni tecnolog'' @ [0x00ED] @ js ''as no confirmadas.'' @ [0x000A],
     js ''- Si el usuario pide presupuesto o muestra intenci'' @ [0x00F3] @ js ''n de contratar, pide:'' @ [0x000A],
     js ''  (1) Nombre, (2) Empresa, (3) Email, (4) Tel'' @ [0x00E9] @ js ''fono, (5) Proceso a automatizar, (6) Herramientas que usa (si lo sabe).'' @ [0x000A],
     js ''- Si el usuario quiere hablar con una persona, ofrece contacto y sugiere agendar.'' @ [0x000A],
     js ''- Si la consulta es poco concreta, gu'' @ [0x00ED] @ js ''a con 2-3 preguntas cerradas.'' @ [0x000A],
     js ''- Si hay dudas sobre LOPDGDD o RGPD, responde de forma general y sugiere consulta profesional.'' @ [0x000A],
     [0x000A],
     js ''Importante:'' @ [0x000A],
     js ''- Si el usuario aporta datos personales, tr'' @ [0x00E1] @ js ''talos con discreci'' @ [0x00F3] @ js ''n y no los repitas innecesariamente.'' @ [0x000A]]"

section \<open>Widget token middleware\<close>

text \<open>\<open>None\<close> is \<open>next()\<close>.\<close>

definition requireWidgetToken :: "env \<Rightarrow> request \<Rightarrow> response option" where
  "requireWidgetToken e req =
     (case WIDGET_TOKEN e of
        None \<Rightarrow> Some \<lparr>status = 500,
                 payload = Reply (js ''Falta configurar WIDGET_TOKEN en el servidor.'')\<rparr>
      | Some expected \<Rightarrow>
          if expected = [] then
            Some \<lparr>status = 500,
                 payload = Reply (js ''Falta configurar WIDGET_TOKEN en el servidor.'')\<rparr>
          else (case x_widget_token req of
                  None \<Rightarrow> Some \<lparr>status = 401, payload = Reply (js ''No autorizado.'')\<rparr>
                | Some provided \<Rightarrow>
                    if provided = [] \<or> provided \<noteq> expected
                    then Some \<lparr>status = 401, payload = Reply (js ''No autorizado.'')\<rparr>
                    else None))"

section \<open>Session store\<close>

text \<open>
  \<open>sessions\<close> is a JavaScript \<open>Map\<close>: its entries in insertion order. A primitive
  key is found again by its value. An array or object key is the value the parser has
  just built for this request, identical to no key set before: \<open>get\<close> finds nothing
  under it and \<open>set\<close> adds an entry.
\<close>

type_synonym store = "(js_value \<times> turn list) list"

fun is_primitive :: "js_value \<Rightarrow> bool" where
  "is_primitive JNull = True"
| "is_primitive (JBool b) = True"
| "is_primitive (JNumber n) = True"
| "is_primitive (JString s) = True"
| "is_primitive (JArray xs) = False"
| "is_primitive (JObject kvs) = False"

definition sessions_get :: "store \<Rightarrow> js_value \<Rightarrow> turn list option" where
  "sessions_get m k = (if is_primitive k then map_of m k else None)"

definition sessions_set :: "store \<Rightarrow> js_value \<Rightarrow> turn list \<Rightarrow> store" where
  "sessions_set m k h = (if is_primitive k then AList.update k h m else m @ [(k, h)])"

section \<open>Completion provider\<close>

text \<open>
  What awaiting \<open>client.chat.completions.create\<close> gives: the promise rejects, or it
  resolves to a completion of which the handler reads
  \<open>choices?.[0]?.message?.content\<close> (\<open>None\<close> when a link of that chain is missing).
\<close>

datatype completion = Rejected | Completed "jsstring option"

section \<open>Chat endpoint\<close>

text \<open>
  The handler runs up to the \<open>await\<close>, where it either has answered or waits for the
  provider with the values below in scope; it resumes when the provider call settles.
\<close>

record pending =
  sid :: js_value
  trimmedHistory :: "turn list"
  text' :: jsstring
  messages :: "turn list"

definition error_reply :: response where
  "error_reply =
     \<lparr>status = 500,
      payload = Reply (js ''Ha ocurrido un error. Int'' @ [0x00E9]
                       @ js ''ntalo de nuevo en unos segundos.'')\<rparr>"

definition chat_begin :: "env \<Rightarrow> store \<Rightarrow> request \<Rightarrow> jsstring \<Rightarrow> response + pending" where
  "chat_begin e m req uuid =
     (if \<not> isAllowedOrigin e (origin req) then Inl origen_no_permitido
      else
        let message = destructure (body req) (js ''message'');
            sessionId = destructure (body req) (js ''sessionId'')
        in
          if OPENAI_API_KEY e = None \<or> OPENAI_API_KEY e = Some [] then
            Inl \<lparr>status = 500,
                 payload = Reply (js ''Falta configurar OPENAI_API_KEY en el servidor.'')\<rparr>
          else
            (case ToString (or_else message (JString [])) of
               None \<Rightarrow> Inl error_reply
             | Some raw \<Rightarrow>
                 let text = trim raw in
                   if text = [] then
                     Inl \<lparr>status = 400,
                          payload = Reply (js ''Escribe un mensaje para poder ayudarte.'')\<rparr>
                   else if length text > 2000 then
                     Inl \<lparr>status = 400,
                          payload = Reply (js ''El mensaje es demasiado largo. Res'' @ [0x00FA]
                                           @ js ''melo un poco, por favor.'')\<rparr>
                   else
                     let sid = or_else sessionId (JString uuid);
                         history = (case sessions_get m sid of None \<Rightarrow> [] | Some h \<Rightarrow> h);
                         trimmedHistory = slice_last 12 history
                     in Inr \<lparr>sid = sid, trimmedHistory = trimmedHistory, text' = text,
                             messages = \<lparr>role = System, content = systemPrompt\<rparr>
                                        # trimmedHistory
                                        @ [\<lparr>role = User, content = text\<rparr>]\<rparr>))"

definition fallback_reply :: jsstring where
  "fallback_reply = js ''No he podido responder ahora mismo.''"

definition reply_of :: "jsstring option \<Rightarrow> jsstring" where
  "reply_of c =
     (case c of None \<Rightarrow> fallback_reply
      | Some s \<Rightarrow> if trim s = [] then fallback_reply else trim s)"

definition chat_end :: "store \<Rightarrow> pending \<Rightarrow> completion \<Rightarrow> response \<times> store" where
  "chat_end m p out =
     (case out of
        Rejected \<Rightarrow> (error_reply, m)
      | Completed c \<Rightarrow>
          let reply = reply_of c in
            (\<lparr>status = 200, payload = ReplySession reply (sid p)\<rparr>,
             sessions_set m (sid p)
               (trimmedHistory p
                @ [\<lparr>role = User, content = text' p\<rparr>,
                   \<lparr>role = Assistant, content = reply\<rparr>])))"

section \<open>The middleware chain of \<open>POST /api/chat\<close>\<close>

text \<open>
  In the order of mounting: the JSON body parser, the CORS layer on \<open>/api\<close>, the rate
  limiter, the widget token, the handler. \<open>Inl\<close> is the response of a request answered
  before the provider is called, \<open>Inr\<close> a request that is waiting for the provider.
\<close>

definition api_chat_begin ::
  "env \<Rightarrow> store \<Rightarrow> bool \<Rightarrow> request \<Rightarrow> jsstring \<Rightarrow> response + pending" where
  "api_chat_begin e m limited req uuid =
     (case json_error req of
        Some err \<Rightarrow> Inl (errorHandler err)
      | None \<Rightarrow>
          (case cors_origin e (origin req) of
             Some msg \<Rightarrow> Inl (errorHandler \<lparr>err_message = msg, err_status = None\<rparr>)
           | None \<Rightarrow>
               if limited then Inl too_many_requests
               else (case requireWidgetToken e req of
                       Some r \<Rightarrow> Inl r
                     | None \<Rightarrow> chat_begin e m req uuid)))"

text \<open>
  One request from arrival to response with nothing else in between: the response, the
  store afterwards, and the message lists sent to the provider.
\<close>

definition api_chat ::
  "env \<Rightarrow> store \<Rightarrow> bool \<Rightarrow> request \<Rightarrow> jsstring \<Rightarrow> completion
     \<Rightarrow> response \<times> store \<times> turn list list" where
  "api_chat e m limited req uuid out =
     (case api_chat_begin e m limited req uuid of
        Inl r \<Rightarrow> (r, m, [])
      | Inr p \<Rightarrow> (case chat_end m p out of (r, m') \<Rightarrow> (r, m', [messages p])))"

section \<open>The server over time\<close>

text \<open>
  Requests overlap at the \<open>await\<close>: between the arrival of a request and the settling
  of its provider call, other requests arrive and settle. The server holds the session
  map and the requests in flight.
\<close>

record server =
  sessions :: store
  inflight :: "pending list"

definition initial :: server where
  "initial = \<lparr>sessions = [], inflight = []\<rparr>"

datatype event = Arrive request bool jsstring | Settle nat completion

fun step :: "env \<Rightarrow> server \<Rightarrow> event \<Rightarrow> server" where
  "step e s (Arrive req limited uuid) =
     (case api_chat_begin e (sessions s) limited req uuid of
        Inl r \<Rightarrow> s
      | Inr p \<Rightarrow> s\<lparr>inflight := inflight s @ [p]\<rparr>)"
| "step e s (Settle i out) =
     (if i < length (inflight s) then
        \<lparr>sessions = snd (chat_end (sessions s) (inflight s ! i) out),
         inflight = take i (inflight s) @ drop (Suc i) (inflight s)\<rparr>
      else s)"

fun run :: "env \<Rightarrow> server \<Rightarrow> event list \<Rightarrow> server" where
  "run e s [] = s"
| "run e s (ev # evs) = run e (step e s ev) evs"

text \<open>
  What every state of the server satisfies: stored histories have an even number of
  turns, at most 14; the histories held by requests in flight have an even number of
  turns, at most 12.
\<close>

definition well_formed :: "server \<Rightarrow> bool" where
  "well_formed s \<longleftrightarrow>
     (\<forall>(k, h) \<in> set (sessions s). even (length h) \<and> length h \<le> 14) \<and>
     (\<forall>p \<in> set (inflight s).
        even (length (trimmedHistory p)) \<and> length (trimmedHistory p) \<le> 12)"

section \<open>A configuration and requests to evaluate on\<close>

definition env0 :: env where
  "env0 = \<lparr>WIDGET_TOKEN = Some (js ''widget-secret''),
           OPENAI_API_KEY = Some (js ''sk-test''),
           ALLOWED_ORIGINS = None\<rparr>"

definition env_no_token :: env where
  "env_no_token = \<lparr>WIDGET_TOKEN = None,
                   OPENAI_API_KEY = Some (js ''sk-test''),
                   ALLOWED_ORIGINS = None\<rparr>"

definition uuid0 :: jsstring where
  "uuid0 = js ''3b241101-e2bb-4255-8caf-4136c566a962''"

definition chat_request :: "js_value \<Rightarrow> request" where
  "chat_request b =
     \<lparr>json_error = None,
      origin = Some (js ''https://automatizacionesbilbao.es''),
      x_widget_token = Some (js ''widget-secret''),
      body = Some b\<rparr>"

definition hola :: request where
  "hola = chat_request (JObject [(js ''message'', JString (js ''Hola'')),
                                 (js ''sessionId'', JString (js ''s1''))])"

definition no_origin_no_token :: request where
  "no_origin_no_token =
     \<lparr>json_error = None, origin = None, x_widget_token = None,
      body = Some (JObject [(js ''message'', JString (js ''Hola''))])\<rparr>"

definition foreign_origin :: request where
  "foreign_origin =
     \<lparr>json_error = None,
      origin = Some (js ''https://example.org''),
      x_widget_token = Some (js ''widget-secret''),
      body = Some (JObject [(js ''message'', JString (js ''Hola''))])\<rparr>"

definition foreign_origin_bad_json :: request where
  "foreign_origin_bad_json =
     \<lparr>json_error = Some \<lparr>err_message = js ''Unexpected end of JSON input'',
                          err_status = Some 400\<rparr>,
      origin = Some (js ''https://example.org''),
      x_widget_token = Some (js ''widget-secret''),
      body = None\<rparr>"

definition no_session_id :: request where
  "no_session_id = chat_request (JObject [(js ''message'', JString (js ''Hola''))])"

definition exchange :: "nat \<Rightarrow> turn list" where
  "exchange i =
     [\<lparr>role = User, content = js ''m'' @ [0x0030 + of_nat i]\<rparr>,
      \<lparr>role = Assistant, content = js ''r'' @ [0x0030 + of_nat i]\<rparr>]"

definition seven_exchanges :: store where
  "seven_exchanges =
     [(JString (js ''s1''),
       exchange 1 @ exchange 2 @ exchange 3 @ exchange 4 @ exchange 5 @ exchange 6
       @ exchange 7)]"

definition round_trip :: "event list" where
  "round_trip = [Arrive hola False uuid0, Settle 0 (Completed (Some (js ''Claro'')))]"

definition empty_session_id :: request where
  "empty_session_id = chat_request (JObject [(js ''message'', JString (js ''Hola'')),
                                             (js ''sessionId'', JString [])])"

definition wrong_token :: request where
  "wrong_token = hola\<lparr>x_widget_token := Some (js ''guess'')\<rparr>"

definition seven_rounds :: "event list" where
  "seven_rounds = round_trip @ round_trip @ round_trip @ round_trip @ round_trip @ round_trip @ round_trip"

definition long_message :: "nat \<Rightarrow> request" where
  "long_message n = chat_request (JObject [(js ''message'', JString (replicate n 0x0061))])"

definition no_message :: request where
  "no_message = chat_request (JObject [])"

definition number_message :: request where
  "number_message = chat_request (JObject [(js ''message'', JNumber (js ''42''))])"

section \<open>Basic facts\<close>


lemma cors_origin_None_iff: "cors_origin e og = None \<longleftrightarrow> isAllowedOrigin e og"
  by (auto simp: cors_origin_def isAllowedOrigin_def split: option.splits)

lemma errorHandler_cors:
  "cors_origin e og = Some msg
   \<Longrightarrow> errorHandler \<lparr>err_message = msg, err_status = None\<rparr> = origen_no_permitido"
  by (auto simp: cors_origin_def errorHandler_def startsWith_def js_def split: if_splits)

lemma length_slice_last: "length (slice_last n xs) \<le> n"
  by (simp add: slice_last_def)

lemma even_slice_last_12: "even (length xs) \<Longrightarrow> even (length (slice_last 12 xs))"
  by (auto simp: slice_last_def)

lemma sessions_get_mem: "sessions_get m k = Some h \<Longrightarrow> (k, h) \<in> set m"
  by (auto simp: sessions_get_def split: if_splits dest: map_of_SomeD)

lemma set_update_entries: "set (AList.update k h m) \<subseteq> insert (k, h) (set m)"
  by (induction m) auto

lemma set_sessions_set: "set (sessions_set m k h) \<subseteq> insert (k, h) (set m)"
  using set_update_entries [of k h m] by (auto simp: sessions_set_def)



lemma chat_begin_pending:
  assumes "chat_begin e m req uuid = Inr p"
  shows "trimmedHistory p =
           slice_last 12 (case sessions_get m (sid p) of None \<Rightarrow> [] | Some h \<Rightarrow> h)"
    and "messages p = \<lparr>role = System, content = systemPrompt\<rparr>
                      # trimmedHistory p @ [\<lparr>role = User, content = text' p\<rparr>]"
    and "sid p = or_else (destructure (body req) (js ''sessionId'')) (JString uuid)"
    and "map_option trim (ToString (or_else (destructure (body req) (js ''message'')) (JString [])))
         = Some (text' p)"
    and "text' p \<noteq> []" and "length (text' p) \<le> 2000"
  using assms
  by (auto simp: chat_begin_def Let_def split: if_splits option.splits)

lemma api_chat_begin_pending:
  "api_chat_begin e m limited req uuid = Inr p \<Longrightarrow> chat_begin e m req uuid = Inr p"
  by (auto simp: api_chat_begin_def split: if_splits option.splits)

lemma chat_end_Rejected: "chat_end m p Rejected = (error_reply, m)"
  by (simp add: chat_end_def)

lemma chat_end_Completed:
  "chat_end m p (Completed c) =
     (\<lparr>status = 200, payload = ReplySession (reply_of c) (sid p)\<rparr>,
      sessions_set m (sid p)
        (trimmedHistory p @ [\<lparr>role = User, content = text' p\<rparr>,
                             \<lparr>role = Assistant, content = reply_of c\<rparr>]))"
  by (simp add: chat_end_def Let_def)

lemma well_formed_initial: "well_formed initial"
  by (simp add: well_formed_def initial_def)

lemma well_formed_step:
  assumes "well_formed s"
  shows "well_formed (step e s ev)"
proof (cases ev)
  case (Arrive req limited uuid)
  show ?thesis
  proof (cases "api_chat_begin e (sessions s) limited req uuid")
    case (Inl r)
    with Arrive assms show ?thesis by simp
  next
    case (Inr p)
    then have th: "trimmedHistory p =
        slice_last 12 (case sessions_get (sessions s) (sid p) of None \<Rightarrow> [] | Some h \<Rightarrow> h)"
      by (intro chat_begin_pending(1) api_chat_begin_pending)
    have "even (length (trimmedHistory p)) \<and> length (trimmedHistory p) \<le> 12"
    proof (cases "sessions_get (sessions s) (sid p)")
      case None
      with th show ?thesis by (simp add: slice_last_def)
    next
      case (Some h)
      then have "(sid p, h) \<in> set (sessions s)" by (rule sessions_get_mem)
      with assms have "even (length h)" by (auto simp: well_formed_def)
      with th Some show ?thesis
        by (simp add: even_slice_last_12 length_slice_last)
    qed
    with Arrive Inr assms show ?thesis by (auto simp: well_formed_def)
  qed
next
  case (Settle i out)
  show ?thesis
  proof (cases "i < length (inflight s)")
    case False
    with Settle assms show ?thesis by simp
  next
    case True
    let ?p = "inflight s ! i"
    from True have "?p \<in> set (inflight s)" by simp
    with assms have p: "even (length (trimmedHistory ?p))" "length (trimmedHistory ?p) \<le> 12"
      by (auto simp: well_formed_def)
    have sub: "set (take i (inflight s) @ drop (Suc i) (inflight s)) \<subseteq> set (inflight s)"
      by (auto dest: in_set_takeD in_set_dropD)
    have st: "\<forall>(k, h) \<in> set (snd (chat_end (sessions s) ?p out)). even (length h) \<and> length h \<le> 14"
    proof (cases out)
      case Rejected
      with assms show ?thesis by (simp add: chat_end_Rejected well_formed_def)
    next
      case (Completed c)
      have "set (snd (chat_end (sessions s) ?p out)) \<subseteq>
            insert (sid ?p, trimmedHistory ?p @ [\<lparr>role = User, content = text' ?p\<rparr>,
                     \<lparr>role = Assistant, content = reply_of c\<rparr>]) (set (sessions s))"
        using Completed by (simp add: chat_end_Completed set_sessions_set)
      with assms p show ?thesis by (auto simp: well_formed_def)
    qed
    from True Settle st sub assms show ?thesis
      by (auto simp: well_formed_def)
  qed
qed

lemma well_formed_run: "well_formed s \<Longrightarrow> well_formed (run e s evs)"
  by (induction evs arbitrary: s) (simp_all add: well_formed_step)

lemma validation_reached:
  assumes "json_error req = None"
    and "cors_origin e (origin req) = None" and "\<not> limited"
    and "requireWidgetToken e req = None"
    and "OPENAI_API_KEY e = Some key" and "key \<noteq> []"
  shows "api_chat_begin e m limited req uuid =
     (case ToString (or_else (destructure (body req) (js ''message'')) (JString [])) of
        None \<Rightarrow> Inl error_reply
      | Some raw \<Rightarrow>
          if trim raw = [] then
            Inl \<lparr>status = 400, payload = Reply (js ''Escribe un mensaje para poder ayudarte.'')\<rparr>
          else if length (trim raw) > 2000 then
            Inl \<lparr>status = 400,
                 payload = Reply (js ''El mensaje es demasiado largo. Res'' @ [0x00FA]
                                  @ js ''melo un poco, por favor.'')\<rparr>
          else
            Inr \<lparr>sid = or_else (destructure (body req) (js ''sessionId'')) (JString uuid),
                 trimmedHistory = slice_last 12
                   (case sessions_get m (or_else (destructure (body req) (js ''sessionId''))
                                          (JString uuid)) of None \<Rightarrow> [] | Some h \<Rightarrow> h),
                 text' = trim raw,
                 messages = \<lparr>role = System, content = systemPrompt\<rparr>
                   # slice_last 12
                       (case sessions_get m (or_else (destructure (body req) (js ''sessionId''))
                                              (JString uuid)) of None \<Rightarrow> [] | Some h \<Rightarrow> h)
                   @ [\<lparr>role = User, content = trim raw\<rparr>]\<rparr>)"
  using assms cors_origin_None_iff [of e "origin req"]
  by (simp add: api_chat_begin_def chat_begin_def Let_def split: option.splits)

lemma hola_admitted:
  "api_chat_begin env0 m False hola uuid0 =
     Inr \<lparr>sid = JString (js ''s1''),
          trimmedHistory =
            slice_last 12 (case sessions_get m (JString (js ''s1'')) of None \<Rightarrow> [] | Some h \<Rightarrow> h),
          text' = js ''Hola'',
          messages = \<lparr>role = System, content = systemPrompt\<rparr>
            # slice_last 12 (case sessions_get m (JString (js ''s1'')) of None \<Rightarrow> [] | Some h \<Rightarrow> h)
            @ [\<lparr>role = User, content = js ''Hola''\<rparr>]\<rparr>"
proof -
  have a: "cors_origin env0 (origin hola) = None"
    by (simp add: cors_origin_def isAllowedOrigin_def allowedOrigins_def allowedFromEnv_def
        defaultAllowed_def trim_def js_def env0_def hola_def chat_request_def)
  have b: "requireWidgetToken env0 hola = None"
    by (simp add: requireWidgetToken_def env0_def hola_def chat_request_def js_def)
  have c: "OPENAI_API_KEY env0 = Some (js ''sk-test'')" "js ''sk-test'' \<noteq> []"
    by (simp_all add: env0_def js_def)
  have d: "destructure (body hola) (js ''message'') = Some (JString (js ''Hola''))"
    "destructure (body hola) (js ''sessionId'') = Some (JString (js ''s1''))"
    by (simp_all add: destructure_def or_else_def property_def hola_def chat_request_def js_def)
  have t: "trim (js ''Hola'') = js ''Hola''" "js ''Hola'' \<noteq> []" "js ''s1'' \<noteq> []"
    "length (js ''Hola'') = 4"
    by (simp_all add: trim_def isWhiteSpace_def js_def)
  have p: "json_error hola = None"
    by (simp add: hola_def chat_request_def)
  show ?thesis
    by (simp add: validation_reached [OF p a _ b c] d or_else_def t)
qed

lemma reply_of_Claro: "reply_of (Some (js ''Claro'')) = js ''Claro''"
  by (simp add: reply_of_def trim_def isWhiteSpace_def js_def)

lemma run_append: "run e s (xs @ ys) = run e (run e s xs) ys"
  by (induction xs arbitrary: s) simp_all

lemma round_trip_first:
  "run env0 initial round_trip =
     \<lparr>sessions = [(JString (js ''s1''),
                   [\<lparr>role = User, content = js ''Hola''\<rparr>,
                    \<lparr>role = Assistant, content = js ''Claro''\<rparr>])],
      inflight = []\<rparr>"
  by (simp add: round_trip_def initial_def hola_admitted chat_end_Completed reply_of_Claro
      sessions_get_def sessions_set_def slice_last_def)

lemma round_trip_next:
  "run env0 \<lparr>sessions = [(JString (js ''s1''), h)], inflight = []\<rparr> round_trip =
     \<lparr>sessions = [(JString (js ''s1''),
                   slice_last 12 h @ [\<lparr>role = User, content = js ''Hola''\<rparr>,
                                      \<lparr>role = Assistant, content = js ''Claro''\<rparr>])],
      inflight = []\<rparr>"
  by (simp add: round_trip_def hola_admitted chat_end_Completed reply_of_Claro
      sessions_get_def sessions_set_def)

lemma chat_request_parsed: "json_error (chat_request b) = None"
  by (simp add: chat_request_def)

lemma chat_request_guards:
  "cors_origin env0 (origin (chat_request b)) = None"
  "requireWidgetToken env0 (chat_request b) = None"
  "OPENAI_API_KEY env0 = Some (js ''sk-test'')"
  "js ''sk-test'' \<noteq> []"
  by (simp_all add: cors_origin_def isAllowedOrigin_def allowedOrigins_def allowedFromEnv_def
      defaultAllowed_def trim_def js_def env0_def chat_request_def requireWidgetToken_def)

lemma trim_replicate_a: "trim (replicate n 0x0061) = replicate n 0x0061"
  by (simp add: trim_def isWhiteSpace_def)

lemma whitespace_only_trim:
  assumes "\<forall>c \<in> set s. isWhiteSpace c"
  shows "trim s = []"
proof -
  from assms have d: "dropWhile isWhiteSpace s = []"
    by (induction s) simp_all
  show ?thesis unfolding trim_def d by simp
qed

lemma truthy_others:
  "v \<noteq> JNull \<Longrightarrow> v \<noteq> JBool False \<Longrightarrow> v \<noteq> JNumber (js ''0'') \<Longrightarrow> \<forall>t. v \<noteq> JString t
   \<Longrightarrow> truthy v"
  by (cases v) auto

section \<open>The claims\<close>

text \<open>
  Claim C1, as stated, fails: seven exchanges in one session from the empty store leave
  14 turns stored under its identifier, more than 12.
\<close>

theorem stored_history_reaches_14:
  "map_option length (sessions_get (sessions (run env0 initial seven_rounds)) (JString (js ''s1'')))
     = Some 14 \<and> \<not> (14::nat) \<le> 12"
  by (simp add: seven_rounds_def run_append round_trip_first round_trip_next sessions_get_def
      slice_last_def)

text \<open>
  Claim C1, amended: a stored history never has more than 14 turns. The handler cuts
  the history it reads to its 12 most recent turns, appends the new user turn and the
  assistant turn, and stores that list as it is, without cutting it again.
\<close>

theorem stored_history_at_most_14:
  "(\<forall>(k, h) \<in> set (sessions (run e initial evs)). length h \<le> 14)
   \<and> (api_chat_begin e m limited req uuid = Inr p \<longrightarrow>
        fst (snd (api_chat e m limited req uuid (Completed c))) =
          sessions_set m (sid p)
            (slice_last 12 (case sessions_get m (sid p) of None \<Rightarrow> [] | Some h \<Rightarrow> h)
             @ [\<lparr>role = User, content = text' p\<rparr>,
                \<lparr>role = Assistant, content = reply_of c\<rparr>]))"
proof
  have "well_formed (run e initial evs)"
    by (rule well_formed_run) (rule well_formed_initial)
  then show "\<forall>(k, h) \<in> set (sessions (run e initial evs)). length h \<le> 14"
    by (auto simp: well_formed_def)
next
  show "api_chat_begin e m limited req uuid = Inr p \<longrightarrow>
        fst (snd (api_chat e m limited req uuid (Completed c))) =
          sessions_set m (sid p)
            (slice_last 12 (case sessions_get m (sid p) of None \<Rightarrow> [] | Some h \<Rightarrow> h)
             @ [\<lparr>role = User, content = text' p\<rparr>,
                \<lparr>role = Assistant, content = reply_of c\<rparr>])"
  proof
    assume a: "api_chat_begin e m limited req uuid = Inr p"
    then have "trimmedHistory p =
        slice_last 12 (case sessions_get m (sid p) of None \<Rightarrow> [] | Some h \<Rightarrow> h)"
      by (intro chat_begin_pending(1) api_chat_begin_pending)
    with a show "fst (snd (api_chat e m limited req uuid (Completed c))) =
          sessions_set m (sid p)
            (slice_last 12 (case sessions_get m (sid p) of None \<Rightarrow> [] | Some h \<Rightarrow> h)
             @ [\<lparr>role = User, content = text' p\<rparr>,
                \<lparr>role = Assistant, content = reply_of c\<rparr>])"
      by (simp add: api_chat_def chat_end_Completed)
  qed
qed

text \<open>
  Claim C1, amended, after one exchange from the empty store.
\<close>

theorem stored_history_at_most_14_witness:
  "(JString (js ''s1''),
      [\<lparr>role = User, content = js ''Hola''\<rparr>, \<lparr>role = Assistant, content = js ''Claro''\<rparr>])
     \<in> set (sessions (run env0 initial round_trip))
   \<and> length [\<lparr>role = User, content = js ''Hola''\<rparr>, \<lparr>role = Assistant, content = js ''Claro''\<rparr>]
       \<le> 14
   \<and> fst (snd (api_chat env0 [] False hola uuid0 (Completed (Some (js ''Claro''))))) =
       [(JString (js ''s1''),
         [\<lparr>role = User, content = js ''Hola''\<rparr>, \<lparr>role = Assistant, content = js ''Claro''\<rparr>])]"
proof -
  have mem: "(JString (js ''s1''),
      [\<lparr>role = User, content = js ''Hola''\<rparr>, \<lparr>role = Assistant, content = js ''Claro''\<rparr>])
     \<in> set (sessions (run env0 initial round_trip))"
    by (simp add: round_trip_first)
  note th = stored_history_at_most_14 [of env0 round_trip "[]" False hola uuid0 _ "Some (js ''Claro'')"]
  from th mem have "length [\<lparr>role = User, content = js ''Hola''\<rparr>,
      \<lparr>role = Assistant, content = js ''Claro''\<rparr>] \<le> 14"
    by blast
  moreover from th hola_admitted [of "[]"]
  have "fst (snd (api_chat env0 [] False hola uuid0 (Completed (Some (js ''Claro''))))) =
       [(JString (js ''s1''),
         [\<lparr>role = User, content = js ''Hola''\<rparr>, \<lparr>role = Assistant, content = js ''Claro''\<rparr>])]"
    by (simp add: sessions_get_def sessions_set_def slice_last_def reply_of_Claro)
  ultimately show ?thesis using mem by blast
qed

text \<open>
  Claim C2, as stated, fails: the CORS layer answers before the widget token is looked
  at, so a request with no Origin header and no token gets 403, not 401.
\<close>

theorem missing_token_not_401:
  "WIDGET_TOKEN env0 = Some (js ''widget-secret'')
   \<and> x_widget_token no_origin_no_token = None
   \<and> status (fst (api_chat env0 [] False no_origin_no_token uuid0 (Completed None))) = 403
   \<and> status (fst (api_chat env0 [] False no_origin_no_token uuid0 (Completed None))) \<noteq> 401"
  by (simp add: env0_def no_origin_no_token_def api_chat_def api_chat_begin_def cors_origin_def
      errorHandler_def startsWith_def origen_no_permitido_def js_def)

text \<open>
  Claim C2, amended: with a secret configured, a request whose X-Widget-Token header is
  absent or differs from it never reaches the completion provider and leaves the store
  alone; when the JSON parser has accepted its body and it has passed the CORS origin
  check and the rate limiter, its response is 401 with the message "No autorizado.".
\<close>

theorem invalid_token_401:
  assumes "WIDGET_TOKEN e = Some expected" and "expected \<noteq> []"
    and "x_widget_token req \<noteq> Some expected"
  shows "snd (snd (api_chat e m limited req uuid out)) = []
         \<and> fst (snd (api_chat e m limited req uuid out)) = m
         \<and> (json_error req = None \<and> cors_origin e (origin req) = None \<and> \<not> limited \<longrightarrow>
              fst (api_chat e m limited req uuid out) =
                \<lparr>status = 401, payload = Reply (js ''No autorizado.'')\<rparr>)"
proof -
  from assms have "requireWidgetToken e req =
      Some \<lparr>status = 401, payload = Reply (js ''No autorizado.'')\<rparr>"
    by (auto simp: requireWidgetToken_def split: option.splits)
  then show ?thesis
    by (auto simp: api_chat_def api_chat_begin_def split: option.splits)
qed

text \<open>
  Claim C2, amended, for a request from an allowed origin with a wrong token.
\<close>

theorem invalid_token_401_witness:
  "WIDGET_TOKEN env0 = Some (js ''widget-secret'') \<and> js ''widget-secret'' \<noteq> []
   \<and> x_widget_token wrong_token \<noteq> Some (js ''widget-secret'')
   \<and> json_error wrong_token = None
   \<and> cors_origin env0 (origin wrong_token) = None
   \<and> api_chat env0 [] False wrong_token uuid0 (Completed None) =
       (\<lparr>status = 401, payload = Reply (js ''No autorizado.'')\<rparr>, [], [])"
proof -
  have a: "WIDGET_TOKEN env0 = Some (js ''widget-secret'')" "js ''widget-secret'' \<noteq> []"
    "x_widget_token wrong_token \<noteq> Some (js ''widget-secret'')"
    by (simp_all add: env0_def wrong_token_def js_def)
  have b: "cors_origin env0 (origin wrong_token) = None" "json_error wrong_token = None"
    by (simp_all add: wrong_token_def hola_def chat_request_guards chat_request_parsed)
  from invalid_token_401 [OF a, of "[]" False uuid0 "Completed None"] a b show ?thesis
    by (simp add: prod_eq_iff)
qed

text \<open>
  Claim C3: when the provider call of an admitted request fails, the response is 500
  with the generic retry message and the session store is what it was, both when nothing
  happened in between and whatever store \<open>m'\<close> the failure finds.
\<close>

theorem provider_failure_500_store_unchanged:
  assumes "api_chat_begin e m limited req uuid = Inr p"
  shows "api_chat e m limited req uuid Rejected =
           (\<lparr>status = 500,
             payload = Reply (js ''Ha ocurrido un error. Int'' @ [0x00E9]
                              @ js ''ntalo de nuevo en unos segundos.'')\<rparr>, m, [messages p])
         \<and> chat_end m' p Rejected =
           (\<lparr>status = 500,
             payload = Reply (js ''Ha ocurrido un error. Int'' @ [0x00E9]
                              @ js ''ntalo de nuevo en unos segundos.'')\<rparr>, m')"
  using assms by (simp add: api_chat_def chat_end_Rejected error_reply_def)

text \<open>
  Claim C3 for a first message to the empty store.
\<close>

theorem provider_failure_500_store_unchanged_witness:
  "api_chat env0 [] False hola uuid0 Rejected =
     (\<lparr>status = 500,
       payload = Reply (js ''Ha ocurrido un error. Int'' @ [0x00E9]
                        @ js ''ntalo de nuevo en unos segundos.'')\<rparr>, [],
      [[\<lparr>role = System, content = systemPrompt\<rparr>, \<lparr>role = User, content = js ''Hola''\<rparr>]])"
  using provider_failure_500_store_unchanged [OF hola_admitted [of "[]"], of "[]"]
  by (simp add: sessions_get_def slice_last_def)

text \<open>
  Claim C4: of a request that reaches the length check (body parsed, allowed origin,
  within the rate budget, valid token, provider key configured), a trimmed message of
  exactly 2000 code
  units passes and goes to the provider as it is; one of 2001 code units is answered with
  400 and no provider call.
\<close>

theorem length_check_boundary:
  assumes "json_error req = None"
    and "cors_origin e (origin req) = None" and "\<not> limited"
    and "requireWidgetToken e req = None"
    and "OPENAI_API_KEY e = Some key" and "key \<noteq> []"
    and "ToString (or_else (destructure (body req) (js ''message'')) (JString [])) = Some raw"
  shows "(length (trim raw) = 2000 \<longrightarrow>
            (\<exists>p. api_chat_begin e m limited req uuid = Inr p \<and> text' p = trim raw))
         \<and> (length (trim raw) = 2001 \<longrightarrow>
              api_chat e m limited req uuid out =
                (\<lparr>status = 400,
                  payload = Reply (js ''El mensaje es demasiado largo. Res'' @ [0x00FA]
                                   @ js ''melo un poco, por favor.'')\<rparr>, m, []))"
proof -
  have "length (trim raw) = 2000 \<Longrightarrow> trim raw \<noteq> []" by auto
  moreover have "length (trim raw) = 2001 \<Longrightarrow> trim raw \<noteq> []" by auto
  ultimately show ?thesis
    using assms(7) by (auto simp: api_chat_def validation_reached [OF assms(1-6)])
qed

text \<open>
  Claim C4 for messages of 2000 and of 2001 letters.
\<close>

theorem length_check_boundary_witness:
  "(\<exists>p. api_chat_begin env0 [] False (long_message 2000) uuid0 = Inr p
        \<and> text' p = replicate 2000 0x0061)
   \<and> api_chat env0 [] False (long_message 2001) uuid0 (Completed None) =
       (\<lparr>status = 400,
         payload = Reply (js ''El mensaje es demasiado largo. Res'' @ [0x00FA]
                          @ js ''melo un poco, por favor.'')\<rparr>, [], [])"
proof -
  have raw: "ToString (or_else (destructure (body (long_message (Suc n))) (js ''message''))
                (JString [])) = Some (replicate (Suc n) 0x0061)" for n
    by (simp add: long_message_def chat_request_def destructure_def or_else_def property_def js_def)
  have raw0: "ToString (or_else (destructure (body (long_message 2000)) (js ''message''))
                (JString [])) = Some (replicate 2000 0x0061)"
    using raw [of 1999] by simp
  have raw1: "ToString (or_else (destructure (body (long_message 2001)) (js ''message''))
                (JString [])) = Some (replicate 2001 0x0061)"
    using raw [of 2000] by simp
  have g: "cors_origin env0 (origin (long_message n)) = None"
    "requireWidgetToken env0 (long_message n) = None"
    "json_error (long_message n) = None" for n
    by (simp_all add: long_message_def chat_request_guards chat_request_parsed)
  from length_check_boundary [OF g(3) g(1) _ g(2) chat_request_guards(3,4) raw0,
      where limited = False and m = "[]" and uuid = uuid0]
  have "\<exists>p. api_chat_begin env0 [] False (long_message 2000) uuid0 = Inr p
        \<and> text' p = replicate 2000 0x0061"
    by (simp add: trim_replicate_a)
  moreover
  from length_check_boundary [OF g(3) g(1) _ g(2) chat_request_guards(3,4) raw1,
      where limited = False and m = "[]" and uuid = uuid0 and out = "Completed None"]
  have "api_chat env0 [] False (long_message 2001) uuid0 (Completed None) =
       (\<lparr>status = 400,
         payload = Reply (js ''El mensaje es demasiado largo. Res'' @ [0x00FA]
                          @ js ''melo un poco, por favor.'')\<rparr>, [], [])"
    by (simp add: trim_replicate_a)
  ultimately show ?thesis by blast
qed

text \<open>
  Claim C5, as stated, fails: a client that supplies the empty string as \<open>sessionId\<close>
  has supplied one, and the handler uses a generated identifier instead.
\<close>

theorem empty_session_id_replaced:
  "destructure (body empty_session_id) (js ''sessionId'') = Some (JString [])
   \<and> map_sum status sid (api_chat_begin env0 [] False empty_session_id uuid0) = Inr (JString uuid0)
   \<and> JString uuid0 \<noteq> JString []"
proof -
  have d: "destructure (body empty_session_id) (js ''message'') = Some (JString (js ''Hola''))"
    "destructure (body empty_session_id) (js ''sessionId'') = Some (JString [])"
    by (simp_all add: destructure_def or_else_def property_def empty_session_id_def
        chat_request_def js_def)
  have t: "trim (js ''Hola'') = js ''Hola''" "js ''Hola'' \<noteq> []" "length (js ''Hola'') = 4"
    by (simp_all add: trim_def isWhiteSpace_def js_def)
  have u: "uuid0 \<noteq> []" by (simp add: uuid0_def js_def)
  show ?thesis
    by (simp add: empty_session_id_def
        validation_reached [OF chat_request_parsed chat_request_guards(1) _ chat_request_guards(2-4)]
        d [unfolded empty_session_id_def] or_else_def t u)
qed

text \<open>
  Claim C5, amended: for every admitted request the session identifier used is the
  client-supplied \<open>sessionId\<close> when that is truthy (not missing, \<open>null\<close>, \<open>false\<close>, 0
  or the empty string) and a freshly generated unique identifier otherwise; the message
  list sent to the provider is the system message, then the at most 12 most recent
  turns stored for that identifier, then the new user turn with the trimmed message;
  and the arrival of the request leaves the store as it was. The identifier is
  generated by \<open>uuidv4()\<close> of the \<open>uuid\<close> package: \<open>uuid\<close> is the value it returns for
  this request, and unique means that this value is no key of the session map. A
  unique generated identifier names a session of its own: it is no key of the map, and
  no stored turn is sent.
\<close>

theorem assembled_request:
  assumes "api_chat_begin e m limited req uuid = Inr p"
  shows "sid p = (case destructure (body req) (js ''sessionId'') of
                    None \<Rightarrow> JString uuid
                  | Some v \<Rightarrow> if truthy v then v else JString uuid)
         \<and> messages p =
             \<lparr>role = System, content = systemPrompt\<rparr>
             # slice_last 12 (case sessions_get m (sid p) of None \<Rightarrow> [] | Some h \<Rightarrow> h)
             @ [\<lparr>role = User, content = text' p\<rparr>]
         \<and> length (slice_last 12 (case sessions_get m (sid p) of None \<Rightarrow> [] | Some h \<Rightarrow> h)) \<le> 12
         \<and> map_option trim (ToString (or_else (destructure (body req) (js ''message'')) (JString [])))
             = Some (text' p)
         \<and> sessions (step e \<lparr>sessions = m, inflight = waiting\<rparr> (Arrive req limited uuid)) = m
         \<and> ((destructure (body req) (js ''sessionId'') = None
              \<or> (\<exists>v. destructure (body req) (js ''sessionId'') = Some v \<and> \<not> truthy v))
             \<and> JString uuid \<notin> fst ` set m \<longrightarrow>
               sid p = JString uuid \<and> sid p \<notin> fst ` set m
               \<and> messages p = [\<lparr>role = System, content = systemPrompt\<rparr>,
                                 \<lparr>role = User, content = text' p\<rparr>])"
proof -
  from assms have b: "chat_begin e m req uuid = Inr p"
    by (rule api_chat_begin_pending)
  from chat_begin_pending(3) [OF b]
  have s: "sid p = (case destructure (body req) (js ''sessionId'') of
                    None \<Rightarrow> JString uuid
                  | Some v \<Rightarrow> if truthy v then v else JString uuid)"
    by (simp add: or_else_def)
  from chat_begin_pending(1,2) [OF b]
  have ms: "messages p =
             \<lparr>role = System, content = systemPrompt\<rparr>
             # slice_last 12 (case sessions_get m (sid p) of None \<Rightarrow> [] | Some h \<Rightarrow> h)
             @ [\<lparr>role = User, content = text' p\<rparr>]"
    by simp
  have st: "sessions (step e \<lparr>sessions = m, inflight = waiting\<rparr> (Arrive req limited uuid)) = m"
    using assms by simp
  have u: "sid p = JString uuid \<and> sid p \<notin> fst ` set m
           \<and> messages p = [\<lparr>role = System, content = systemPrompt\<rparr>,
                             \<lparr>role = User, content = text' p\<rparr>]"
    if gen: "destructure (body req) (js ''sessionId'') = None
             \<or> (\<exists>v. destructure (body req) (js ''sessionId'') = Some v \<and> \<not> truthy v)"
      and fresh: "JString uuid \<notin> fst ` set m"
  proof -
    from gen s have g: "sid p = JString uuid" by auto
    from fresh have "map_of m (JString uuid) = None"
      by (simp add: map_of_eq_None_iff)
    then have "sessions_get m (sid p) = None"
      by (simp add: g sessions_get_def)
    with ms g fresh show ?thesis by (simp add: slice_last_def)
  qed
  then have u': "(destructure (body req) (js ''sessionId'') = None
              \<or> (\<exists>v. destructure (body req) (js ''sessionId'') = Some v \<and> \<not> truthy v))
             \<and> JString uuid \<notin> fst ` set m \<longrightarrow>
               sid p = JString uuid \<and> sid p \<notin> fst ` set m
               \<and> messages p = [\<lparr>role = System, content = systemPrompt\<rparr>,
                                 \<lparr>role = User, content = text' p\<rparr>]"
    by blast
  have l: "length (slice_last 12 (case sessions_get m (sid p) of None \<Rightarrow> [] | Some h \<Rightarrow> h))
           \<le> 12"
    by (rule length_slice_last)
  note tr = chat_begin_pending(4) [OF b]
  from s ms l tr st u' show ?thesis
    by (intro conjI)
qed

text \<open>
  Claim C5, amended, against a store that holds seven exchanges of session \<open>s1\<close>: a
  request with that identifier gets the last twelve turns sent, a request without an
  identifier the generated one and no stored turn.
\<close>

theorem assembled_request_witness:
  "api_chat_begin env0 seven_exchanges False hola uuid0 =
     Inr \<lparr>sid = JString (js ''s1''), trimmedHistory = (exchange 2 @ exchange 3 @ exchange 4 @ exchange 5 @ exchange 6 @ exchange 7),
          text' = js ''Hola'',
          messages = \<lparr>role = System, content = systemPrompt\<rparr>
                     # (exchange 2 @ exchange 3 @ exchange 4 @ exchange 5 @ exchange 6 @ exchange 7) @ [\<lparr>role = User, content = js ''Hola''\<rparr>]\<rparr>
   \<and> destructure (body hola) (js ''sessionId'') = Some (JString (js ''s1''))
   \<and> length (exchange 2 @ exchange 3 @ exchange 4 @ exchange 5 @ exchange 6 @ exchange 7) = 12
   \<and> api_chat_begin env0 seven_exchanges False no_session_id uuid0 =
     Inr \<lparr>sid = JString uuid0, trimmedHistory = [], text' = js ''Hola'',
          messages = [\<lparr>role = System, content = systemPrompt\<rparr>,
                      \<lparr>role = User, content = js ''Hola''\<rparr>]\<rparr>
   \<and> destructure (body no_session_id) (js ''sessionId'') = None
   \<and> JString uuid0 \<notin> fst ` set seven_exchanges
   \<and> sessions (step env0 \<lparr>sessions = seven_exchanges, inflight = []\<rparr>
                 (Arrive no_session_id False uuid0)) = seven_exchanges"
proof -
  have a1: "api_chat_begin env0 seven_exchanges False hola uuid0 =
     Inr \<lparr>sid = JString (js ''s1''), trimmedHistory = (exchange 2 @ exchange 3 @ exchange 4 @ exchange 5 @ exchange 6 @ exchange 7),
          text' = js ''Hola'',
          messages = \<lparr>role = System, content = systemPrompt\<rparr>
                     # (exchange 2 @ exchange 3 @ exchange 4 @ exchange 5 @ exchange 6 @ exchange 7) @ [\<lparr>role = User, content = js ''Hola''\<rparr>]\<rparr>"
    by (simp add: hola_admitted seven_exchanges_def sessions_get_def slice_last_def exchange_def)
  have d1: "destructure (body hola) (js ''sessionId'') = Some (JString (js ''s1''))"
    by (simp add: destructure_def or_else_def property_def hola_def chat_request_def js_def)
  have d2: "destructure (body no_session_id) (js ''message'') = Some (JString (js ''Hola''))"
    "destructure (body no_session_id) (js ''sessionId'') = None"
    by (simp_all add: destructure_def or_else_def property_def no_session_id_def
        chat_request_def js_def)
  have fresh: "JString uuid0 \<notin> fst ` set seven_exchanges"
    by (simp add: seven_exchanges_def uuid0_def js_def)
  then have none: "sessions_get seven_exchanges (JString uuid0) = None"
    by (simp add: sessions_get_def map_of_eq_None_iff)
  have t: "trim (js ''Hola'') = js ''Hola''" "js ''Hola'' \<noteq> []" "length (js ''Hola'') = 4"
    by (simp_all add: trim_def isWhiteSpace_def js_def)
  have "\<exists>p. api_chat_begin env0 seven_exchanges False no_session_id uuid0 = Inr p
            \<and> text' p = js ''Hola'' \<and> trimmedHistory p = []"
    by (simp add: no_session_id_def
        validation_reached [OF chat_request_parsed chat_request_guards(1) _ chat_request_guards(2-4)]
        d2 [unfolded no_session_id_def] or_else_def t none slice_last_def)
  then obtain p where a2: "api_chat_begin env0 seven_exchanges False no_session_id uuid0 = Inr p"
    and p: "text' p = js ''Hola''" "trimmedHistory p = []"
    by blast
  note th = assembled_request [OF a2, of "[]"]
  from th d2(2) fresh
  have g: "sid p = JString uuid0 \<and> sid p \<notin> fst ` set seven_exchanges
           \<and> messages p = [\<lparr>role = System, content = systemPrompt\<rparr>,
                             \<lparr>role = User, content = text' p\<rparr>]"
    by blast
  from th have st: "sessions (step env0 \<lparr>sessions = seven_exchanges, inflight = []\<rparr>
                 (Arrive no_session_id False uuid0)) = seven_exchanges"
    by blast
  from g p have "sid p = JString uuid0"
    "messages p = [\<lparr>role = System, content = systemPrompt\<rparr>,
                   \<lparr>role = User, content = js ''Hola''\<rparr>]"
    by simp_all
  with p have e2: "p = \<lparr>sid = JString uuid0, trimmedHistory = [], text' = js ''Hola'',
          messages = [\<lparr>role = System, content = systemPrompt\<rparr>,
                      \<lparr>role = User, content = js ''Hola''\<rparr>]\<rparr>"
    by simp
  from assembled_request [OF a1, of "[]"] have "length (exchange 2 @ exchange 3 @ exchange 4 @ exchange 5 @ exchange 6 @ exchange 7) \<le> 12"
    by (simp add: seven_exchanges_def sessions_get_def slice_last_def exchange_def)
  moreover have "12 \<le> length (exchange 2 @ exchange 3 @ exchange 4 @ exchange 5 @ exchange 6 @ exchange 7)"
    by (simp add: exchange_def)
  ultimately have l12: "length (exchange 2 @ exchange 3 @ exchange 4 @ exchange 5 @ exchange 6 @ exchange 7) = 12"
    by simp
  from a2 e2
  have a2': "api_chat_begin env0 seven_exchanges False no_session_id uuid0 =
     Inr \<lparr>sid = JString uuid0, trimmedHistory = [], text' = js ''Hola'',
          messages = [\<lparr>role = System, content = systemPrompt\<rparr>,
                      \<lparr>role = User, content = js ''Hola''\<rparr>]\<rparr>"
    by simp
  from a1 d1 l12 a2' d2(2) fresh st show ?thesis
    by (intro conjI)
qed

text \<open>
  Claim C6, as stated, fails: with no widget secret configured, a request from an origin
  outside the allow list is answered 403 by the CORS layer, not 500.
\<close>

theorem missing_secret_not_500:
  "WIDGET_TOKEN env_no_token = None
   \<and> status (fst (api_chat env_no_token [] False foreign_origin uuid0 (Completed None))) = 403
   \<and> status (fst (api_chat env_no_token [] False foreign_origin uuid0 (Completed None))) \<noteq> 500"
  by (simp add: env_no_token_def foreign_origin_def api_chat_def api_chat_begin_def
      cors_origin_def isAllowedOrigin_def allowedOrigins_def allowedFromEnv_def defaultAllowed_def
      trim_def errorHandler_def startsWith_def origen_no_permitido_def js_def)

text \<open>
  Claim C6, amended: with no widget secret configured (unset or empty), no request
  reaches the completion provider or changes the store, whatever token it carries; a
  request whose body the JSON parser has accepted and that has passed the CORS origin
  check and the rate limiter is answered 500 with the message that WIDGET_TOKEN is not
  configured.
\<close>

theorem missing_secret_500:
  assumes "WIDGET_TOKEN e = None \<or> WIDGET_TOKEN e = Some []"
  shows "snd (snd (api_chat e m limited req uuid out)) = []
         \<and> fst (snd (api_chat e m limited req uuid out)) = m
         \<and> (json_error req = None \<and> cors_origin e (origin req) = None \<and> \<not> limited \<longrightarrow>
              fst (api_chat e m limited req uuid out) =
                \<lparr>status = 500,
                 payload = Reply (js ''Falta configurar WIDGET_TOKEN en el servidor.'')\<rparr>)"
proof -
  from assms have "requireWidgetToken e req =
      Some \<lparr>status = 500, payload = Reply (js ''Falta configurar WIDGET_TOKEN en el servidor.'')\<rparr>"
    by (auto simp: requireWidgetToken_def split: option.splits)
  then show ?thesis
    by (auto simp: api_chat_def api_chat_begin_def split: option.splits)
qed

text \<open>
  Claim C6, amended, for a request that carries the usual token.
\<close>

theorem missing_secret_500_witness:
  "WIDGET_TOKEN env_no_token = None
   \<and> json_error hola = None
   \<and> cors_origin env_no_token (origin hola) = None
   \<and> api_chat env_no_token [] False hola uuid0 (Completed None) =
       (\<lparr>status = 500,
         payload = Reply (js ''Falta configurar WIDGET_TOKEN en el servidor.'')\<rparr>, [], [])"
proof -
  have a: "WIDGET_TOKEN env_no_token = None"
    by (simp add: env_no_token_def)
  have b: "cors_origin env_no_token (origin hola) = None" "json_error hola = None"
    by (simp_all add: cors_origin_def isAllowedOrigin_def allowedOrigins_def allowedFromEnv_def
        defaultAllowed_def trim_def js_def env_no_token_def hola_def chat_request_def)
  from missing_secret_500 [of env_no_token "[]" False hola uuid0 "Completed None"] a b
  show ?thesis by (simp add: prod_eq_iff)
qed

text \<open>
  Claim C7, as stated, fails: the JSON parser is mounted before the CORS layer, so a
  request from an origin outside the allow list whose body does not parse is answered
  400 by the default handler, not 403.
\<close>

theorem foreign_origin_bad_json_400:
  "origin foreign_origin_bad_json = Some (js ''https://example.org'')
   \<and> js ''https://example.org'' \<notin> set (allowedOrigins env0)
   \<and> status (fst (api_chat env0 [] False foreign_origin_bad_json uuid0 (Completed None))) = 400
   \<and> status (fst (api_chat env0 [] False foreign_origin_bad_json uuid0 (Completed None))) \<noteq> 403"
  by (simp add: foreign_origin_bad_json_def api_chat_def api_chat_begin_def errorHandler_def
      default_handler_def startsWith_def allowedOrigins_def allowedFromEnv_def env0_def
      defaultAllowed_def trim_def js_def)

text \<open>
  Claim C7, amended: a request whose Origin header is absent, or is not in the
  allowed-origin set, never reaches the completion provider and leaves the store alone;
  when the JSON parser has accepted its body, it is answered 403 with "Origen no
  permitido." (a missing Origin header is itself a rejection).
\<close>

theorem origin_not_allowed_403:
  assumes "origin req = None \<or> (\<exists>s. origin req = Some s \<and> s \<notin> set (allowedOrigins e))"
  shows "snd (snd (api_chat e m limited req uuid out)) = []
         \<and> fst (snd (api_chat e m limited req uuid out)) = m
         \<and> (json_error req = None \<longrightarrow>
              fst (api_chat e m limited req uuid out) =
                \<lparr>status = 403, payload = Reply (js ''Origen no permitido.'')\<rparr>)"
proof -
  from assms have "\<not> isAllowedOrigin e (origin req)"
    by (auto simp: isAllowedOrigin_def)
  then obtain msg where "cors_origin e (origin req) = Some msg"
    using cors_origin_None_iff [of e "origin req"] by (cases "cors_origin e (origin req)") auto
  then show ?thesis
    by (cases "json_error req")
      (simp_all add: api_chat_def api_chat_begin_def errorHandler_cors origen_no_permitido_def)
qed

text \<open>
  Claim C7, amended, for a request from another origin that carries the right token.
\<close>

theorem origin_not_allowed_403_witness:
  "origin foreign_origin = Some (js ''https://example.org'')
   \<and> js ''https://example.org'' \<notin> set (allowedOrigins env0)
   \<and> json_error foreign_origin = None
   \<and> api_chat env0 [] False foreign_origin uuid0 (Completed None) =
         (\<lparr>status = 403, payload = Reply (js ''Origen no permitido.'')\<rparr>, [], [])"
proof -
  have a: "origin foreign_origin = Some (js ''https://example.org'')"
    "json_error foreign_origin = None"
    by (simp_all add: foreign_origin_def)
  have b: "js ''https://example.org'' \<notin> set (allowedOrigins env0)"
    by (simp add: allowedOrigins_def allowedFromEnv_def env0_def defaultAllowed_def trim_def js_def)
  from a b origin_not_allowed_403 [of foreign_origin env0 "[]" False uuid0 "Completed None"]
  show ?thesis by (simp add: prod_eq_iff)
qed



text \<open>
  Claim C10: the message is validated through its string coercion. Of a request that
  reaches the validation (body parsed, allowed origin, within the rate budget, valid
  token, provider key configured), a message that is missing, \<open>null\<close>, \<open>false\<close>, 0 or a
  string of white space only is answered 400 as an empty message; any other value that
  is not a string is accepted when its coerced and trimmed form is not empty and has at
  most 2000 code units.
\<close>

theorem message_validated_by_coercion:
  assumes "json_error req = None"
    and "cors_origin e (origin req) = None" and "\<not> limited"
    and "requireWidgetToken e req = None"
    and "OPENAI_API_KEY e = Some key" and "key \<noteq> []"
  shows "(destructure (body req) (js ''message'') = None
          \<or> destructure (body req) (js ''message'') = Some JNull
          \<or> destructure (body req) (js ''message'') = Some (JBool False)
          \<or> destructure (body req) (js ''message'') = Some (JNumber (js ''0''))
          \<or> (\<exists>s. destructure (body req) (js ''message'') = Some (JString s)
                  \<and> (\<forall>c \<in> set s. isWhiteSpace c))
          \<longrightarrow> api_chat e m limited req uuid out =
                (\<lparr>status = 400,
                  payload = Reply (js ''Escribe un mensaje para poder ayudarte.'')\<rparr>, m, []))
         \<and> (\<forall>v s. destructure (body req) (js ''message'') = Some v
                \<and> v \<noteq> JNull \<and> v \<noteq> JBool False \<and> v \<noteq> JNumber (js ''0'') \<and> (\<forall>t. v \<noteq> JString t)
                \<and> ToString v = Some s \<and> trim s \<noteq> [] \<and> length (trim s) \<le> 2000
              \<longrightarrow> (\<exists>p. api_chat_begin e m limited req uuid = Inr p \<and> text' p = trim s))"
proof (intro conjI impI allI)
  assume "destructure (body req) (js ''message'') = None
          \<or> destructure (body req) (js ''message'') = Some JNull
          \<or> destructure (body req) (js ''message'') = Some (JBool False)
          \<or> destructure (body req) (js ''message'') = Some (JNumber (js ''0''))
          \<or> (\<exists>s. destructure (body req) (js ''message'') = Some (JString s)
                  \<and> (\<forall>c \<in> set s. isWhiteSpace c))"
  then have "\<exists>raw. ToString (or_else (destructure (body req) (js ''message'')) (JString []))
                = Some raw \<and> trim raw = []"
    by (auto simp: or_else_def whitespace_only_trim)
  then show "api_chat e m limited req uuid out =
                (\<lparr>status = 400,
                  payload = Reply (js ''Escribe un mensaje para poder ayudarte.'')\<rparr>, m, [])"
    by (auto simp: api_chat_def validation_reached [OF assms])
next
  fix v s
  assume a: "destructure (body req) (js ''message'') = Some v
                \<and> v \<noteq> JNull \<and> v \<noteq> JBool False \<and> v \<noteq> JNumber (js ''0'') \<and> (\<forall>t. v \<noteq> JString t)
                \<and> ToString v = Some s \<and> trim s \<noteq> [] \<and> length (trim s) \<le> 2000"
  then have "truthy v" by (intro truthy_others) auto
  with a show "\<exists>p. api_chat_begin e m limited req uuid = Inr p \<and> text' p = trim s"
    by (simp add: validation_reached [OF assms] or_else_def)
qed

text \<open>
  Claim C10 for a body without a message and for the number 42 as message.
\<close>

theorem message_validated_by_coercion_witness:
  "api_chat env0 [] False no_message uuid0 (Completed None) =
     (\<lparr>status = 400, payload = Reply (js ''Escribe un mensaje para poder ayudarte.'')\<rparr>, [], [])
   \<and> (\<exists>p. api_chat_begin env0 [] False number_message uuid0 = Inr p \<and> text' p = js ''42'')"
proof -
  note th = message_validated_by_coercion
    [OF chat_request_parsed chat_request_guards(1) _ chat_request_guards(2-4)]
  have a: "destructure (body no_message) (js ''message'') = None"
    by (simp add: no_message_def chat_request_def destructure_def or_else_def property_def)
  have b: "destructure (body number_message) (js ''message'') = Some (JNumber (js ''42''))"
    by (simp add: number_message_def chat_request_def destructure_def or_else_def property_def
        js_def)
  have c: "JNumber (js ''42'') \<noteq> JNumber (js ''0'')" "trim (js ''42'') = js ''42''"
    "js ''42'' \<noteq> []" "length (js ''42'') \<le> 2000"
    by (simp_all add: js_def trim_def isWhiteSpace_def)
  from th [of False "JObject []" "[]" uuid0 "Completed None"] a
  have "api_chat env0 [] False no_message uuid0 (Completed None) =
     (\<lparr>status = 400, payload = Reply (js ''Escribe un mensaje para poder ayudarte.'')\<rparr>, [], [])"
    by (simp add: no_message_def)
  moreover
  from th [of False "JObject [(js ''message'', JNumber (js ''42''))]" "[]" uuid0] b c
  have "\<exists>p. api_chat_begin env0 [] False number_message uuid0 = Inr p \<and> text' p = js ''42''"
    by (simp add: number_message_def)
  ultimately show ?thesis by blast
qed

end
